theory Spec2Isabelle
  imports Main "HOL-Library.Sublist"
begin

section \<open>Data model (the type block of the Go source)\<close>

text \<open>
  Go strings are byte sequences and are modelled as \<open>string\<close> (a list of 8-bit
  characters). Go's \<open>int\<close> is modelled as \<open>int\<close>: the program performs no
  arithmetic on it apart from \<open>artistID - 1\<close> under the guard \<open>artistID \<ge> 1\<close>, so
  wrap-around never occurs. A Go \<open>error\<close> value is modelled by its message.

  Record fields live in one name space in HOL, so the fields of the anonymous structs
  inside \<open>Locations\<close>, \<open>Dates\<close> and \<open>Relation\<close> carry the prefixes \<open>loc_\<close>, \<open>dat_\<close> and
  \<open>rel_\<close>, and \<open>Artist.Locations\<close> is called \<open>ArtistLocations\<close>.
\<close>

type_synonym error = string

record Data =
  Artists :: string
  Locations :: string
  Dates :: string
  Relation :: string

record Artist =
  ID :: int
  Image :: string
  Name :: string
  Members :: "string list"
  CreationDate :: int
  FirstAlbum :: string
  ArtistLocations :: string
  ConcertDates :: string
  Relations :: string

text \<open>
  \<open>Locations\<close>, \<open>Dates\<close> and \<open>Relation\<close> are structs with the single field \<open>Index\<close>, a
  slice of anonymous structs; the model identifies each of them with that slice.
\<close>

record LocationsEntry =
  loc_ID :: int
  loc_Locations :: "string list"
  loc_Dates :: string

record DatesEntry =
  dat_ID :: int
  dat_Dates :: "string list"

record RelationEntry =
  rel_ID :: int
  rel_DatesLocations :: "string \<rightharpoonup> string list"

text \<open>
  An element of \<open>artistData\<close> is a \<open>map[string]interface{}\<close>. The only place that
  creates one is the loop of \<open>gatherData\<close>, which always stores the same nine keys with
  the same dynamic types, so the element is modelled as a record with one field per
  key (\<open>m_Id\<close> for key \<open>"Id"\<close>, and so on); the type assertions of \<open>searchHandler\<close>
  then cannot fail.
\<close>

record ArtistMap =
  m_Id :: int
  m_Name :: string
  m_Image :: string
  m_Members :: "string list"
  m_CreationDate :: int
  m_FirstAlbum :: string
  m_Locations :: "string list"
  m_Dates :: "string list"
  m_Relation :: "string \<rightharpoonup> string list"

section \<open>The combine loop of gatherData\<close>

text \<open>
  Indexing a Go slice out of range panics with
  \<open>index out of range [i] with length n\<close>; the panic is a value of the model.
\<close>

datatype panic = IndexOutOfRange nat nat

definition index :: "'a list \<Rightarrow> nat \<Rightarrow> panic + 'a" where
  "index xs i = (if i < length xs then Inr (xs ! i) else Inl (IndexOutOfRange i (length xs)))"

definition mkArtistMap :: "Artist \<Rightarrow> LocationsEntry \<Rightarrow> DatesEntry \<Rightarrow> RelationEntry \<Rightarrow> ArtistMap" where
  "mkArtistMap a l d r =
     \<lparr> m_Id = ID a, m_Name = Name a, m_Image = Image a, m_Members = Members a,
       m_CreationDate = CreationDate a, m_FirstAlbum = FirstAlbum a,
       m_Locations = loc_Locations l, m_Dates = dat_Dates d,
       m_Relation = rel_DatesLocations r \<rparr>"

text \<open>
  \<open>for x := 0; x < len(artists); x++ { artistData = append(artistData, ...) }\<close>.
  The operands of the map literal are evaluated in source order, so the first
  out-of-range index is the one that panics: \<open>locations.Index[x]\<close>, then
  \<open>dates.Index[x]\<close>, then \<open>relation.Index[x]\<close>. \<open>artists[x]\<close> is in range by the
  loop condition.
\<close>

function combine ::
  "Artist list \<Rightarrow> LocationsEntry list \<Rightarrow> DatesEntry list \<Rightarrow> RelationEntry list \<Rightarrow>
   nat \<Rightarrow> ArtistMap list \<Rightarrow> panic + ArtistMap list" where
  "combine artists locations dates relation x artistData =
     (if x < length artists then
        (case index locations x of
           Inl p \<Rightarrow> Inl p
         | Inr l \<Rightarrow>
        (case index dates x of
           Inl p \<Rightarrow> Inl p
         | Inr d \<Rightarrow>
        (case index relation x of
           Inl p \<Rightarrow> Inl p
         | Inr r \<Rightarrow>
             combine artists locations dates relation (Suc x)
               (artistData @ [mkArtistMap (artists ! x) l d r]))))
      else Inr artistData)"
  by pat_completeness auto
termination
  by (relation "measure (\<lambda>(artists, locations, dates, relation, x, artistData). length artists - x)") auto

declare combine.simps [simp del]

section \<open>The fan-out of gatherData\<close>

text \<open>
  \<open>fetchData(url, &target)\<close> performs a network request; its result is an input of the
  model. A \<open>world\<close> gives, for the root document and for each of the four sub-resource
  fetches, the returned error (\<open>None\<close> for \<open>nil\<close>) and the value the target holds when
  the call returns (on an error this may be the zero value or a partially decoded
  one; the model does not restrict it).
\<close>

record world =
  fetch_root :: "error option \<times> Data"
  fetch_artists :: "string \<Rightarrow> error option \<times> Artist list"
  fetch_locations :: "string \<Rightarrow> error option \<times> LocationsEntry list"
  fetch_relation :: "string \<Rightarrow> error option \<times> RelationEntry list"
  fetch_dates :: "string \<Rightarrow> error option \<times> DatesEntry list"

text \<open>The four goroutines, in the order in which gatherData launches them.\<close>

datatype source = SrcArtists | SrcLocations | SrcRelation | SrcDates

subsection \<open>The shared slice, word by word\<close>

text \<open>
  \<open>errs\<close> is a variable captured by the four closures, so it lives on the heap and
  is shared. It is a slice header of three words, pointer, length and capacity. An
  element of its backing array is an \<open>error\<close> interface value of two words, the type
  word and the data word. The goroutines take no lock, so every access of one of
  these words is a step of its own and steps of other goroutines may come between
  any two of them: a header or an element can be seen half-written.

  A word of an element is \<open>None\<close> when zero and \<open>Some e\<close> when it is the type word,
  or the data word, of the error \<open>e\<close>. The value \<open>(None, None)\<close> is the \<open>nil\<close> error,
  \<open>(Some e, Some e)\<close> is the error \<open>e\<close>, anything else is a torn value.

  Each goroutine appends once, so it allocates at most one backing array; the
  array allocated by goroutine \<open>g\<close> has the address \<open>g\<close>, and \<open>heap st g\<close> is its
  content (\<open>[]\<close> while it is not allocated, otherwise as many elements as its
  capacity). A pointer word is \<open>None\<close> for \<open>nil\<close> or \<open>Some g\<close>.

  Dereferencing \<open>nil\<close> stops the process; an access beyond the end of an array reads
  or overwrites foreign memory. Either is a \<open>fault\<close>, after which the model follows
  the program no further.
\<close>

type_synonym iface = "error option \<times> error option"

datatype fault = NilDereference | OutOfBounds

text \<open>
  For \<open>errs = append(errs, err)\<close> on a variable that is not on the stack the compiler
  emits, and the model follows:
  \<^verbatim>\<open>
    ptr, len, cap := errs
    len += 1
    if len > cap {
        ptr, len, cap = growslice(ptr, len, cap, 1, error)
        errs.cap = cap
        errs.ptr = ptr
    }
    errs.len = len
    ptr[len-1] = err
  \<close>
  \<open>growslice\<close> allocates a zeroed array of the new capacity and copies the old
  \<open>len - 1\<close> elements into it. The places of a goroutine name the access it performs
  next and hold its registers:
  \<^item> \<open>Fetching\<close>: \<open>fetchData\<close> has not returned yet;
  \<^item> \<open>LoadPtr err\<close>, \<open>LoadLen err ptr\<close>, \<open>LoadCap err ptr len\<close>: the three loads of the
    header (\<open>fetchData\<close> returned \<open>err\<close>);
  \<^item> \<open>CopyTab err ptr len cap i\<close>, \<open>CopyDat err ptr len cap i\<close>: \<open>growslice\<close> reads
    the type word, then the data word, of element \<open>i\<close> of the old array \<open>ptr\<close>
    (\<open>len\<close> and \<open>cap\<close> are the new length and capacity);
  \<^item> \<open>StoreCap err len cap\<close>, \<open>StorePtr err len\<close>: the two header stores after growth;
  \<^item> \<open>StoreLen err ptr len\<close>: the store of the length;
  \<^item> \<open>StoreTab err ptr len\<close>, \<open>StoreDat err ptr len\<close>: the two stores of the element
    \<open>ptr[len-1]\<close>;
  \<^item> \<open>Finished\<close>: \<open>wg.Done()\<close> has run.

  The order among the three header loads, among the words copied and between the
  two words of an element is chosen by the compiler and the hardware; the model
  fixes one. The theorems below that speak of every schedule concern runs in which
  at most one goroutine touches \<open>errs\<close>, where this order is immaterial, and the
  schedules exhibited below keep every such group of accesses together.
\<close>

datatype pc =
  Fetching
| LoadPtr error
| LoadLen error "source option"
| LoadCap error "source option" nat
| CopyTab error "source option" nat nat nat
| CopyDat error "source option" nat nat nat
| StoreCap error nat nat
| StorePtr error nat
| StoreLen error "source option" nat
| StoreTab error "source option" nat
| StoreDat error "source option" nat
| Finished

record fanout =
  artists :: "Artist list"
  locations :: "LocationsEntry list"
  relation :: "RelationEntry list"
  dates :: "DatesEntry list"
  errs_ptr :: "source option"
  errs_len :: nat
  errs_cap :: nat
  heap :: "source \<Rightarrow> iface list"
  fault :: "fault option"
  pcs :: "source \<Rightarrow> pc"

definition init_fanout :: fanout where
  "init_fanout =
     \<lparr> artists = [], locations = [], relation = [], dates = [],
       errs_ptr = None, errs_len = 0, errs_cap = 0, heap = (\<lambda>g. []), fault = None,
       pcs = (\<lambda>g. Fetching) \<rparr>"

fun fetch_err :: "world \<Rightarrow> Data \<Rightarrow> source \<Rightarrow> error option" where
  "fetch_err w data SrcArtists = fst (fetch_artists w (Artists data))"
| "fetch_err w data SrcLocations = fst (fetch_locations w (Locations data))"
| "fetch_err w data SrcRelation = fst (fetch_relation w (Relation data))"
| "fetch_err w data SrcDates = fst (fetch_dates w (Dates data))"

fun fetch_into :: "world \<Rightarrow> Data \<Rightarrow> source \<Rightarrow> fanout \<Rightarrow> fanout" where
  "fetch_into w data SrcArtists st = st\<lparr>artists := snd (fetch_artists w (Artists data))\<rparr>"
| "fetch_into w data SrcLocations st = st\<lparr>locations := snd (fetch_locations w (Locations data))\<rparr>"
| "fetch_into w data SrcRelation st = st\<lparr>relation := snd (fetch_relation w (Relation data))\<rparr>"
| "fetch_into w data SrcDates st = st\<lparr>dates := snd (fetch_dates w (Dates data))\<rparr>"

text \<open>
  The capacity \<open>growslice\<close> chooses: the needed length if that exceeds twice the old
  capacity, otherwise twice the old capacity. (This is the rule below capacity 256;
  with elements of 16 bytes the allocator has a size class for every capacity up to
  16, so no rounding occurs. The fan-out appends four times at most.)
\<close>

definition growcap :: "nat \<Rightarrow> nat \<Rightarrow> nat" where
  "growcap oldCap newLen = (if newLen > 2 * oldCap then newLen else 2 * oldCap)"

text \<open>
  Reading and updating element \<open>i\<close> of the array a pointer word names. A \<open>nil\<close>
  pointer or an index beyond the end of the array is a fault.
\<close>

definition read_elem :: "fanout \<Rightarrow> source option \<Rightarrow> nat \<Rightarrow> fault + iface" where
  "read_elem st ptr i =
     (case ptr of
        None \<Rightarrow> Inl NilDereference
      | Some a \<Rightarrow> if i < length (heap st a) then Inr (heap st a ! i) else Inl OutOfBounds)"

definition write_elem :: "fanout \<Rightarrow> source option \<Rightarrow> nat \<Rightarrow> (iface \<Rightarrow> iface) \<Rightarrow> fanout" where
  "write_elem st ptr i f =
     (case read_elem st ptr i of
        Inl flt \<Rightarrow> st\<lparr>fault := Some flt\<rparr>
      | Inr old \<Rightarrow> st\<lparr>heap := (heap st)(the ptr := (heap st (the ptr))[i := f old])\<rparr>)"

definition goto :: "source \<Rightarrow> pc \<Rightarrow> fanout \<Rightarrow> fanout" where
  "goto g p st = (if fault st = None then st\<lparr>pcs := (pcs st)(g := p)\<rparr> else st)"

text \<open>
  One step of goroutine \<open>g\<close>: the access its place names, then the move to the next
  place. After a fault, and for a finished goroutine, a step changes nothing.
\<close>

definition step :: "world \<Rightarrow> Data \<Rightarrow> source \<Rightarrow> fanout \<Rightarrow> fanout" where
  "step w data g st =
     (if fault st \<noteq> None then st
      else case pcs st g of
        Fetching \<Rightarrow>
          goto g (case fetch_err w data g of None \<Rightarrow> Finished | Some err \<Rightarrow> LoadPtr err)
            (fetch_into w data g st)
      | LoadPtr err \<Rightarrow> goto g (LoadLen err (errs_ptr st)) st
      | LoadLen err ptr \<Rightarrow> goto g (LoadCap err ptr (errs_len st)) st
      | LoadCap err ptr len \<Rightarrow>
          (let cap = errs_cap st; newLen = len + 1 in
           if newLen > cap then
             (let newCap = growcap cap newLen in
              goto g (if len = 0 then StoreCap err newLen newCap
                      else CopyTab err ptr newLen newCap 0)
                (st\<lparr>heap := (heap st)(g := replicate newCap (None, None))\<rparr>))
           else goto g (StoreLen err ptr newLen) st)
      | CopyTab err ptr newLen newCap i \<Rightarrow>
          (case read_elem st ptr i of
             Inl flt \<Rightarrow> st\<lparr>fault := Some flt\<rparr>
           | Inr old \<Rightarrow>
               goto g (CopyDat err ptr newLen newCap i)
                 (write_elem st (Some g) i (\<lambda>new. (fst old, snd new))))
      | CopyDat err ptr newLen newCap i \<Rightarrow>
          (case read_elem st ptr i of
             Inl flt \<Rightarrow> st\<lparr>fault := Some flt\<rparr>
           | Inr old \<Rightarrow>
               goto g (if i + 1 < newLen - 1 then CopyTab err ptr newLen newCap (i + 1)
                       else StoreCap err newLen newCap)
                 (write_elem st (Some g) i (\<lambda>new. (fst new, snd old))))
      | StoreCap err newLen newCap \<Rightarrow> goto g (StorePtr err newLen) (st\<lparr>errs_cap := newCap\<rparr>)
      | StorePtr err newLen \<Rightarrow> goto g (StoreLen err (Some g) newLen) (st\<lparr>errs_ptr := Some g\<rparr>)
      | StoreLen err ptr newLen \<Rightarrow> goto g (StoreTab err ptr newLen) (st\<lparr>errs_len := newLen\<rparr>)
      | StoreTab err ptr newLen \<Rightarrow>
          goto g (StoreDat err ptr newLen)
            (write_elem st ptr (newLen - 1) (\<lambda>old. (Some err, snd old)))
      | StoreDat err ptr newLen \<Rightarrow>
          goto g Finished (write_elem st ptr (newLen - 1) (\<lambda>old. (fst old, Some err)))
      | Finished \<Rightarrow> st)"

text \<open>
  A schedule lists which goroutine takes the next step; it stands for the
  interleaving chosen by the Go scheduler, the hardware and the network.
\<close>

fun run :: "world \<Rightarrow> Data \<Rightarrow> source list \<Rightarrow> fanout \<Rightarrow> fanout" where
  "run w data [] st = st"
| "run w data (g # sched) st = run w data sched (step w data g st)"

text \<open>\<open>wg.Wait()\<close> returns once all four goroutines have called \<open>wg.Done()\<close>.\<close>

definition all_done :: "fanout \<Rightarrow> bool" where
  "all_done st \<longleftrightarrow>
     pcs st SrcArtists = Finished \<and> pcs st SrcLocations = Finished \<and>
     pcs st SrcRelation = Finished \<and> pcs st SrcDates = Finished"

text \<open>
  A goroutine whose append starts from the \<open>nil\<close> slice needs nine steps, one whose
  fetch succeeds needs one.
\<close>

definition fair :: "source list \<Rightarrow> bool" where
  "fair sched \<longleftrightarrow>
     9 \<le> count_list sched SrcArtists \<and> 9 \<le> count_list sched SrcLocations \<and>
     9 \<le> count_list sched SrcRelation \<and> 9 \<le> count_list sched SrcDates"

text \<open>
  The slice \<open>errs\<close> as the header describes it, for a reader that runs alone (the
  main goroutine after \<open>wg.Wait()\<close>); \<open>None\<close> when the header does not describe
  allocated memory.
\<close>

definition errs :: "fanout \<Rightarrow> iface list option" where
  "errs st =
     (case errs_ptr st of
        None \<Rightarrow> if errs_len st = 0 then Some [] else None
      | Some a \<Rightarrow> if errs_len st \<le> length (heap st a) then Some (take (errs_len st) (heap st a))
                  else None)"

section \<open>gatherData\<close>

text \<open>
  gatherData returns an \<open>error\<close> (\<open>Returned\<close>; \<open>None\<close> is \<open>nil\<close>) and updates the
  package-level \<open>artistData\<close>, or it panics inside the combine loop, or the run
  ends at a fault (\<open>Faulted\<close>). \<open>ReturnedTorn\<close> is the return of an interface value whose two
  words do not belong together. The result is \<open>None\<close> when the schedule ends before
  \<open>wg.Wait()\<close> can return.

  After the barrier the main goroutine runs alone: \<open>len(errs) > 0\<close> reads the length
  word, and \<open>errs[0]\<close>, inside the bounds by that test, reads element 0 through the
  pointer word.
\<close>

datatype outcome =
  Panicked panic
| Faulted fault
| Returned "error option" "ArtistMap list"
| ReturnedTorn iface "ArtistMap list"

definition return_err :: "iface \<Rightarrow> ArtistMap list \<Rightarrow> outcome" where
  "return_err v artistData =
     (case v of
        (None, None) \<Rightarrow> Returned None artistData
      | (Some t, Some d) \<Rightarrow> if t = d then Returned (Some t) artistData
                            else ReturnedTorn v artistData
      | _ \<Rightarrow> ReturnedTorn v artistData)"

definition gatherData :: "world \<Rightarrow> source list \<Rightarrow> ArtistMap list \<Rightarrow> outcome option" where
  "gatherData w sched artistData =
     (case fetch_root w of
        (Some err, data) \<Rightarrow> Some (Returned (Some err) artistData)
      | (None, data) \<Rightarrow>
          (let st = run w data sched init_fanout in
           case fault st of
             Some flt \<Rightarrow> Some (Faulted flt)
           | None \<Rightarrow>
               if \<not> all_done st then None
               else if errs_len st > 0 then
                 (case read_elem st (errs_ptr st) 0 of
                    Inl flt \<Rightarrow> Some (Faulted flt)
                  | Inr v \<Rightarrow> Some (return_err v artistData))
               else (case combine (artists st) (locations st) (dates st) (relation st) 0 artistData of
                       Inl p \<Rightarrow> Some (Panicked p)
                     | Inr artistData' \<Rightarrow> Some (Returned None artistData'))))"

section \<open>Library functions used by the handlers\<close>

text \<open>
  \<open>strings.ToLower\<close>: on a string of ASCII bytes it maps \<open>'A'..'Z'\<close> to \<open>'a'..'z'\<close>
  byte by byte; on any other string it is \<open>strings.Map(unicode.ToLower, s)\<close>, which
  depends on the Unicode tables and is the parameter \<open>U\<close> of the model.
\<close>

definition isASCII :: "string \<Rightarrow> bool" where
  "isASCII s = list_all (\<lambda>c. (of_char c :: nat) < 128) s"

definition lower_byte :: "char \<Rightarrow> char" where
  "lower_byte c =
     (if 65 \<le> (of_char c :: nat) \<and> (of_char c :: nat) \<le> 90
      then char_of ((of_char c :: nat) + 32) else c)"

definition ToLower :: "(string \<Rightarrow> string) \<Rightarrow> string \<Rightarrow> string" where
  "ToLower U s = (if isASCII s then map lower_byte s else U s)"

text \<open>\<open>strings.HasPrefix\<close> and \<open>strings.Contains\<close>: byte-wise substring test.\<close>

fun HasPrefix :: "string \<Rightarrow> string \<Rightarrow> bool" where
  "HasPrefix s [] = True"
| "HasPrefix [] (c # pre) = False"
| "HasPrefix (b # s) (c # pre) = (b = c \<and> HasPrefix s pre)"

fun Contains :: "string \<Rightarrow> string \<Rightarrow> bool" where
  "Contains [] substr = (substr = [])"
| "Contains (b # s) substr = (HasPrefix (b # s) substr \<or> Contains s substr)"

text \<open>\<open>strconv.Itoa\<close>: the decimal form of an integer, with a leading \<open>-\<close> when negative.\<close>

definition digit :: "nat \<Rightarrow> char" where
  "digit d = ''0123456789'' ! d"

fun digits :: "nat \<Rightarrow> string" where
  "digits n = (if n < 10 then [digit n] else digits (n div 10) @ [digit (n mod 10)])"

declare digits.simps [simp del]

definition Itoa :: "int \<Rightarrow> string" where
  "Itoa i = (if i < 0 then CHR ''-'' # digits (nat (- i)) else digits (nat i))"

section \<open>searchHandler\<close>

record SearchResult =
  res_Type :: string
  res_Value :: string
  res_ID :: int

text \<open>The two inner \<open>range\<close> loops; \<open>results\<close> is threaded through as the state.\<close>

fun search_members ::
  "(string \<Rightarrow> string) \<Rightarrow> string \<Rightarrow> int \<Rightarrow> string list \<Rightarrow> SearchResult list \<Rightarrow> SearchResult list" where
  "search_members U query artistId [] results = results"
| "search_members U query artistId (member # rest) results =
     search_members U query artistId rest
       (if Contains (ToLower U member) query
        then results @ [\<lparr>res_Type = ''member'', res_Value = member, res_ID = artistId\<rparr>]
        else results)"

fun search_locations ::
  "(string \<Rightarrow> string) \<Rightarrow> string \<Rightarrow> int \<Rightarrow> string list \<Rightarrow> SearchResult list \<Rightarrow> SearchResult list" where
  "search_locations U query artistId [] results = results"
| "search_locations U query artistId (location # rest) results =
     search_locations U query artistId rest
       (if Contains (ToLower U location) query
        then results @ [\<lparr>res_Type = ''location'', res_Value = location, res_ID = artistId\<rparr>]
        else results)"

text \<open>The body of \<open>for _, artist := range artistData\<close>.\<close>

definition search_artist ::
  "(string \<Rightarrow> string) \<Rightarrow> string \<Rightarrow> ArtistMap \<Rightarrow> SearchResult list \<Rightarrow> SearchResult list" where
  "search_artist U query artist results0 =
     (let results1 =
            (if Contains (ToLower U (m_Name artist)) query
             then results0 @ [\<lparr>res_Type = ''artist'', res_Value = m_Name artist, res_ID = m_Id artist\<rparr>]
             else results0);
          results2 = search_members U query (m_Id artist) (m_Members artist) results1;
          results3 = search_locations U query (m_Id artist) (m_Locations artist) results2;
          results4 =
            (if Contains (ToLower U (m_FirstAlbum artist)) query
             then results3 @ [\<lparr>res_Type = ''first album'', res_Value = m_FirstAlbum artist,
                               res_ID = m_Id artist\<rparr>]
             else results3)
      in if Contains (Itoa (m_CreationDate artist)) query
         then results4 @ [\<lparr>res_Type = ''creation date'', res_Value = Itoa (m_CreationDate artist),
                           res_ID = m_Id artist\<rparr>]
         else results4)"

fun search_loop ::
  "(string \<Rightarrow> string) \<Rightarrow> string \<Rightarrow> ArtistMap list \<Rightarrow> SearchResult list \<Rightarrow> SearchResult list" where
  "search_loop U query [] results = results"
| "search_loop U query (artist # rest) results =
     search_loop U query rest (search_artist U query artist results)"

text \<open>
  \<open>searchHandler\<close> reads the query parameter \<open>q\<close>; the value returned here is the
  \<open>results\<close> slice that the handler encodes as JSON.
\<close>

definition searchHandler :: "(string \<Rightarrow> string) \<Rightarrow> ArtistMap list \<Rightarrow> string \<Rightarrow> SearchResult list" where
  "searchHandler U artistData q = search_loop U (ToLower U q) artistData []"

text \<open>
  The search as section 4.5 of the specification words it: for each record in store
  order, one hit per matching field, in the order name, members, locations, first
  album, creation year; nothing removed, nothing reordered.
\<close>

definition record_hits :: "(string \<Rightarrow> string) \<Rightarrow> string \<Rightarrow> ArtistMap \<Rightarrow> SearchResult list" where
  "record_hits U query r =
     (if Contains (ToLower U (m_Name r)) query
      then [\<lparr>res_Type = ''artist'', res_Value = m_Name r, res_ID = m_Id r\<rparr>] else [])
     @ map (\<lambda>v. \<lparr>res_Type = ''member'', res_Value = v, res_ID = m_Id r\<rparr>)
         (filter (\<lambda>v. Contains (ToLower U v) query) (m_Members r))
     @ map (\<lambda>v. \<lparr>res_Type = ''location'', res_Value = v, res_ID = m_Id r\<rparr>)
         (filter (\<lambda>v. Contains (ToLower U v) query) (m_Locations r))
     @ (if Contains (ToLower U (m_FirstAlbum r)) query
        then [\<lparr>res_Type = ''first album'', res_Value = m_FirstAlbum r, res_ID = m_Id r\<rparr>] else [])
     @ (if Contains (Itoa (m_CreationDate r)) query
        then [\<lparr>res_Type = ''creation date'', res_Value = Itoa (m_CreationDate r), res_ID = m_Id r\<rparr>]
        else [])"

definition Search :: "(string \<Rightarrow> string) \<Rightarrow> ArtistMap list \<Rightarrow> string \<Rightarrow> SearchResult list" where
  "Search U store q = concat (map (record_hits U (ToLower U q)) store)"

section \<open>The page handlers\<close>

text \<open>
  A handler either answers with \<open>http.Error\<close> (status and message) or executes a
  template on some data. \<open>templates.ExecuteTemplate(w, name, data)\<close> depends on the
  template files; its returned error is the parameter \<open>templates\<close>. The messages are
  those of the later revision of the source (the earlier one has the same control
  flow with messages without the status prefix, a plain 404 error, and no about and
  search handlers).
\<close>

datatype tdata = NoData | AllArtists "ArtistMap list" | OneArtist ArtistMap

datatype response = HttpError nat string | Page string tdata | Json "SearchResult list"

definition ExecuteTemplate :: "(string \<Rightarrow> tdata \<Rightarrow> error option) \<Rightarrow> string \<Rightarrow> tdata \<Rightarrow> response" where
  "ExecuteTemplate templates name d =
     (case templates name d of
        None \<Rightarrow> Page name d
      | Some err \<Rightarrow> HttpError 500 (''500 ! '' @ err))"

definition indexHandler ::
  "(string \<Rightarrow> tdata \<Rightarrow> error option) \<Rightarrow> ArtistMap list \<Rightarrow> string \<Rightarrow> string \<Rightarrow> response" where
  "indexHandler templates artistData method path =
     (if method \<noteq> ''GET'' then HttpError 405 ''405 ! Method not allowed''
      else if path \<noteq> ''/'' then ExecuteTemplate templates ''404.html'' NoData
      else ExecuteTemplate templates ''index.html'' (AllArtists artistData))"

text \<open>
  \<open>parsed\<close> is the result of \<open>strconv.Atoi(r.URL.Query().Get("id"))\<close>: \<open>Inl err\<close> when
  the parameter is not a decimal integer, \<open>Inr artistID\<close> otherwise.
\<close>

definition singleArtistHandler ::
  "(string \<Rightarrow> tdata \<Rightarrow> error option) \<Rightarrow> ArtistMap list \<Rightarrow> string \<Rightarrow> error + int \<Rightarrow> response" where
  "singleArtistHandler templates artistData method parsed =
     (if method \<noteq> ''GET'' then HttpError 405 ''405 ! Method not allowed''
      else (case parsed of
              Inl err \<Rightarrow> HttpError 400 ''400 ! Invalid Artist ID''
            | Inr artistID \<Rightarrow>
                if artistID < 1 \<or> artistID > int (length artistData)
                then HttpError 400 ''400 ! Invalid Artist ID''
                else ExecuteTemplate templates ''artist.html''
                       (OneArtist (artistData ! nat (artistID - 1)))))"

definition aboutHandler :: "(string \<Rightarrow> tdata \<Rightarrow> error option) \<Rightarrow> string \<Rightarrow> response" where
  "aboutHandler templates method =
     (if method \<noteq> ''GET'' then HttpError 405 ''405 ! Method not allowed''
      else ExecuteTemplate templates ''about.html'' NoData)"

text \<open>
  The four handlers registered in \<open>main\<close>, as one transition on the package-level
  \<open>artistData\<close>: the response, and \<open>artistData\<close> after the request. No handler assigns
  to \<open>artistData\<close>.
\<close>

datatype request =
  ReqIndex string string
| ReqArtist string "error + int"
| ReqAbout string
| ReqSearch string

fun serve ::
  "(string \<Rightarrow> tdata \<Rightarrow> error option) \<Rightarrow> (string \<Rightarrow> string) \<Rightarrow> ArtistMap list \<Rightarrow> request \<Rightarrow>
   response \<times> ArtistMap list" where
  "serve templates U artistData (ReqIndex method path) =
     (indexHandler templates artistData method path, artistData)"
| "serve templates U artistData (ReqArtist method parsed) =
     (singleArtistHandler templates artistData method parsed, artistData)"
| "serve templates U artistData (ReqAbout method) = (aboutHandler templates method, artistData)"
| "serve templates U artistData (ReqSearch q) = (Json (searchHandler U artistData q), artistData)"

section \<open>Runs in which at most one goroutine appends\<close>

text \<open>
  When no fetch other than that of \<open>g\<close> fails, only goroutine \<open>g\<close> ever touches
  \<open>errs\<close>, and the memory of \<open>errs\<close> is a function of the place \<open>g\<close> is at. The
  invariant \<open>solo_inv\<close> lists it place by place; it also says that no fault has
  occurred, that the other goroutines are before or after their fetch, and that a
  goroutine past its fetch has filled its target.
\<close>

definition solo :: "world \<Rightarrow> Data \<Rightarrow> source \<Rightarrow> bool" where
  "solo w data g \<longleftrightarrow> (\<forall>g'. g' \<noteq> g \<longrightarrow> fetch_err w data g' = None)"

definition header :: "fanout \<Rightarrow> source option \<times> nat \<times> nat" where
  "header st = (errs_ptr st, errs_len st, errs_cap st)"

definition targets_ok :: "world \<Rightarrow> Data \<Rightarrow> fanout \<Rightarrow> bool" where
  "targets_ok w data st \<longleftrightarrow>
     (pcs st SrcArtists \<noteq> Fetching \<longrightarrow> artists st = snd (fetch_artists w (Artists data))) \<and>
     (pcs st SrcLocations \<noteq> Fetching \<longrightarrow> locations st = snd (fetch_locations w (Locations data))) \<and>
     (pcs st SrcRelation \<noteq> Fetching \<longrightarrow> relation st = snd (fetch_relation w (Relation data))) \<and>
     (pcs st SrcDates \<noteq> Fetching \<longrightarrow> dates st = snd (fetch_dates w (Dates data)))"

definition solo_mem :: "world \<Rightarrow> Data \<Rightarrow> source \<Rightarrow> fanout \<Rightarrow> bool" where
  "solo_mem w data g st =
     (case pcs st g of
        Fetching \<Rightarrow> header st = (None, 0, 0) \<and> heap st g = []
      | LoadPtr e \<Rightarrow>
          fetch_err w data g = Some e \<and> header st = (None, 0, 0) \<and> heap st g = []
      | LoadLen e p \<Rightarrow>
          fetch_err w data g = Some e \<and> p = None \<and> header st = (None, 0, 0) \<and> heap st g = []
      | LoadCap e p l \<Rightarrow>
          fetch_err w data g = Some e \<and> p = None \<and> l = 0 \<and> header st = (None, 0, 0) \<and>
          heap st g = []
      | CopyTab e p n c i \<Rightarrow> False
      | CopyDat e p n c i \<Rightarrow> False
      | StoreCap e n c \<Rightarrow>
          fetch_err w data g = Some e \<and> n = 1 \<and> c = 1 \<and> header st = (None, 0, 0) \<and>
          heap st g = [(None, None)]
      | StorePtr e n \<Rightarrow>
          fetch_err w data g = Some e \<and> n = 1 \<and> header st = (None, 0, 1) \<and>
          heap st g = [(None, None)]
      | StoreLen e q n \<Rightarrow>
          fetch_err w data g = Some e \<and> q = Some g \<and> n = 1 \<and> header st = (Some g, 0, 1) \<and>
          heap st g = [(None, None)]
      | StoreTab e q n \<Rightarrow>
          fetch_err w data g = Some e \<and> q = Some g \<and> n = 1 \<and> header st = (Some g, 1, 1) \<and>
          heap st g = [(None, None)]
      | StoreDat e q n \<Rightarrow>
          fetch_err w data g = Some e \<and> q = Some g \<and> n = 1 \<and> header st = (Some g, 1, 1) \<and>
          heap st g = [(Some e, None)]
      | Finished \<Rightarrow>
          (case fetch_err w data g of
             None \<Rightarrow> header st = (None, 0, 0) \<and> heap st g = []
           | Some e \<Rightarrow> header st = (Some g, 1, 1) \<and> heap st g = [(Some e, Some e)]))"

definition solo_inv :: "world \<Rightarrow> Data \<Rightarrow> source \<Rightarrow> fanout \<Rightarrow> bool" where
  "solo_inv w data g st \<longleftrightarrow>
     fault st = None \<and> targets_ok w data st \<and> solo_mem w data g st \<and>
     (\<forall>g'. g' \<noteq> g \<longrightarrow> pcs st g' = Fetching \<or> pcs st g' = Finished)"

text \<open>Progress of a goroutine through its places.\<close>

fun rank :: "pc \<Rightarrow> nat" where
  "rank Fetching = 0"
| "rank (LoadPtr e) = 1"
| "rank (LoadLen e p) = 2"
| "rank (LoadCap e p l) = 3"
| "rank (CopyTab e p n c i) = 3"
| "rank (CopyDat e p n c i) = 3"
| "rank (StoreCap e n c) = 4"
| "rank (StorePtr e n) = 5"
| "rank (StoreLen e q n) = 6"
| "rank (StoreTab e q n) = 7"
| "rank (StoreDat e q n) = 8"
| "rank Finished = 9"

section \<open>Example data\<close>

text \<open>
  The one-record store of the specification's example scenario, the four decoded
  collections it is joined from, and three worlds: one where every fetch succeeds,
  one where only the locations fetch fails, one where the artists and the locations
  fetch both fail.
\<close>

definition queen_artist :: Artist where
  "queen_artist =
     \<lparr> ID = 1, Image = ''queen.jpeg'', Name = ''Queen'',
       Members = [''Freddie Mercury'', ''Brian May''], CreationDate = 1970,
       FirstAlbum = ''1973-07-13'', ArtistLocations = [], ConcertDates = [],
       Relations = [] \<rparr>"

definition queen_locations :: LocationsEntry where
  "queen_locations = \<lparr> loc_ID = 1, loc_Locations = [''london'', ''tokyo''], loc_Dates = [] \<rparr>"

definition queen_dates :: DatesEntry where
  "queen_dates = \<lparr> dat_ID = 1, dat_Dates = [''1986-07-12''] \<rparr>"

definition queen_relation :: RelationEntry where
  "queen_relation = \<lparr> rel_ID = 1, rel_DatesLocations = [''london'' \<mapsto> [''1986-07-12'']] \<rparr>"

definition queen :: ArtistMap where
  "queen = mkArtistMap queen_artist queen_locations queen_dates queen_relation"

definition api :: Data where
  "api = \<lparr> Artists = ''/api/artists'', Locations = ''/api/locations'', Dates = ''/api/dates'',
           Relation = ''/api/relation'' \<rparr>"

definition world_up :: world where
  "world_up =
     \<lparr> fetch_root = (None, api),
       fetch_artists = (\<lambda>url. (None, [queen_artist])),
       fetch_locations = (\<lambda>url. (None, [queen_locations])),
       fetch_relation = (\<lambda>url. (None, [queen_relation])),
       fetch_dates = (\<lambda>url. (None, [queen_dates])) \<rparr>"

definition world_locations_down :: world where
  "world_locations_down = world_up\<lparr>fetch_locations := (\<lambda>url. (Some ''locations: EOF'', []))\<rparr>"

definition world_two_down :: world where
  "world_two_down =
     world_locations_down\<lparr>fetch_artists := (\<lambda>url. (Some ''artists: EOF'', []))\<rparr>"

text \<open>
  Four interleavings of a run in which the artists and the locations fetch fail.
  In the first two each goroutine runs to its end before the next one starts,
  artists first or locations first. In \<open>racing\<close> both failing goroutines load the
  header of \<open>errs\<close> (still \<open>nil\<close>) before either stores anything. In \<open>stale_copy\<close> the
  artists goroutine has stored its header but not yet its element when the locations
  goroutine loads the header, grows the slice and copies the element.
\<close>

definition artists_first :: "source list" where
  "artists_first =
     [SrcArtists, SrcArtists, SrcArtists, SrcArtists, SrcArtists, SrcArtists, SrcArtists,
      SrcArtists, SrcArtists,
      SrcLocations, SrcLocations, SrcLocations, SrcLocations, SrcLocations, SrcLocations,
      SrcLocations, SrcLocations, SrcLocations, SrcLocations, SrcLocations,
      SrcRelation, SrcDates]"

definition locations_first :: "source list" where
  "locations_first =
     [SrcLocations, SrcLocations, SrcLocations, SrcLocations, SrcLocations, SrcLocations,
      SrcLocations, SrcLocations, SrcLocations,
      SrcArtists, SrcArtists, SrcArtists, SrcArtists, SrcArtists, SrcArtists, SrcArtists,
      SrcArtists, SrcArtists, SrcArtists, SrcArtists,
      SrcRelation, SrcDates]"

definition racing :: "source list" where
  "racing =
     [SrcArtists, SrcArtists, SrcArtists, SrcArtists,
      SrcLocations, SrcLocations, SrcLocations, SrcLocations,
      SrcArtists, SrcArtists, SrcArtists, SrcArtists, SrcArtists,
      SrcLocations, SrcLocations, SrcLocations, SrcLocations, SrcLocations,
      SrcRelation, SrcDates]"

definition stale_copy :: "source list" where
  "stale_copy =
     [SrcArtists, SrcArtists, SrcArtists, SrcArtists, SrcArtists, SrcArtists, SrcArtists,
      SrcLocations, SrcLocations, SrcLocations, SrcLocations, SrcLocations, SrcLocations,
      SrcLocations, SrcLocations, SrcLocations, SrcLocations, SrcLocations,
      SrcArtists, SrcArtists,
      SrcRelation, SrcDates]"

section \<open>Lemmas\<close>

subsection \<open>The combine loop\<close>

text \<open>
  When the three other collections are at least as long as \<open>artists\<close>, the loop started
  at \<open>x\<close> appends one record per remaining position and does not panic.
\<close>

lemma combine_in_range:
  "length arts \<le> length locs \<Longrightarrow> length arts \<le> length dts \<Longrightarrow>
   length arts \<le> length rels \<Longrightarrow>
   combine arts locs dts rels x store =
     Inr (store @
          map (\<lambda>i. mkArtistMap (arts ! i) (locs ! i) (dts ! i) (rels ! i))
            [x..<length arts])"
proof (induction arts locs dts rels x store rule: combine.induct)
  case (1 arts locs dts rels x store)
  show ?case
  proof (cases "x < length arts")
    case True
    then have ix: "index locs x = Inr (locs ! x)" "index dts x = Inr (dts ! x)"
      "index rels x = Inr (rels ! x)"
      using "1.prems" by (simp_all add: index_def)
    have "combine arts locs dts rels x store =
          combine arts locs dts rels (Suc x)
            (store @ [mkArtistMap (arts ! x) (locs ! x) (dts ! x) (rels ! x)])"
      using True ix by (subst combine.simps) simp
    also have "\<dots> = Inr ((store @ [mkArtistMap (arts ! x) (locs ! x) (dts ! x) (rels ! x)]) @
          map (\<lambda>i. mkArtistMap (arts ! i) (locs ! i) (dts ! i) (rels ! i))
            [Suc x..<length arts])"
      using "1.IH" [OF True ix(1) ix(2) ix(3)] "1.prems" by simp
    finally show ?thesis using True by (simp add: upt_conv_Cons)
  next
    case False
    then show ?thesis by (subst combine.simps) simp
  qed
qed

subsection \<open>The search loops\<close>

text \<open>Each loop appends to \<open>results\<close> the hits of what it ranges over, in order.\<close>

lemma search_members_eq:
  "search_members U query artistId ms results =
     results @ map (\<lambda>v. \<lparr>res_Type = ''member'', res_Value = v, res_ID = artistId\<rparr>)
                 (filter (\<lambda>v. Contains (ToLower U v) query) ms)"
  by (induction ms arbitrary: results) simp_all

lemma search_locations_eq:
  "search_locations U query artistId ls results =
     results @ map (\<lambda>v. \<lparr>res_Type = ''location'', res_Value = v, res_ID = artistId\<rparr>)
                 (filter (\<lambda>v. Contains (ToLower U v) query) ls)"
  by (induction ls arbitrary: results) simp_all

lemma search_artist_eq:
  "search_artist U query artist results = results @ record_hits U query artist"
  by (simp add: search_artist_def record_hits_def search_members_eq search_locations_eq Let_def)

lemma search_loop_eq:
  "search_loop U query store results = results @ concat (map (record_hits U query) store)"
  by (induction store arbitrary: results) (simp_all add: search_artist_eq)

lemma searchHandler_eq_Search: "searchHandler U store q = Search U store q"
  by (simp add: searchHandler_def Search_def search_loop_eq)

text \<open>The empty string is a prefix and a substring of every string.\<close>

lemma HasPrefix_Nil [simp]: "HasPrefix s []"
  by (cases s) simp_all

lemma Contains_Nil [simp]: "Contains s []"
  by (induction s) simp_all

lemma ToLower_Nil [simp]: "ToLower U [] = []"
  by (simp add: ToLower_def isASCII_def)

text \<open>\<open>HasPrefix\<close> and \<open>Contains\<close> are the list predicates \<open>prefix\<close> and \<open>sublist\<close>.\<close>

lemma HasPrefix_iff_prefix: "HasPrefix s p \<longleftrightarrow> prefix p s"
  by (induction s p rule: HasPrefix.induct) auto

lemma Contains_iff_sublist: "Contains s sub \<longleftrightarrow> sublist sub s"
  by (induction s) (simp_all add: HasPrefix_iff_prefix sublist_Cons_right)

subsection \<open>The fan-out with at most one failing fetch\<close>

text \<open>The invariant holds initially and every step of every goroutine keeps it.\<close>

lemma solo_inv_init: "solo_inv w data g init_fanout"
  by (simp add: solo_inv_def solo_mem_def targets_ok_def header_def init_fanout_def)

lemma fetch_into_other [simp]:
  "pcs (fetch_into w data g st) = pcs st" "fault (fetch_into w data g st) = fault st"
  "heap (fetch_into w data g st) = heap st" "errs_ptr (fetch_into w data g st) = errs_ptr st"
  "errs_len (fetch_into w data g st) = errs_len st" "errs_cap (fetch_into w data g st) = errs_cap st"
  by (cases g; simp)+

lemma targets_ok_fetch:
  "targets_ok w data st \<Longrightarrow>
   targets_ok w data (goto g p (fetch_into w data g st))"
  by (cases g) (auto simp: targets_ok_def goto_def)

lemma targets_ok_keep:
  "targets_ok w data st \<Longrightarrow> pcs st g \<noteq> Fetching \<Longrightarrow>
   artists st' = artists st \<Longrightarrow> locations st' = locations st \<Longrightarrow>
   relation st' = relation st \<Longrightarrow> dates st' = dates st \<Longrightarrow>
   pcs st' = (pcs st)(g := p) \<Longrightarrow> targets_ok w data st'"
  by (cases g) (auto simp: targets_ok_def)

lemma solo_mem_eq:
  "pcs st' g = pcs st g \<Longrightarrow> header st' = header st \<Longrightarrow> heap st' g = heap st g \<Longrightarrow>
   solo_mem w data g st' = solo_mem w data g st"
  by (simp add: solo_mem_def split: pc.splits option.splits)

lemma solo_inv_step_other:
  assumes inv: "solo_inv w data g st" and solo: "solo w data g" and ne: "g' \<noteq> g"
  shows "solo_inv w data g (step w data g' st)"
proof -
  from inv ne have pc: "pcs st g' = Fetching \<or> pcs st g' = Finished"
    by (simp add: solo_inv_def)
  from solo ne have ok: "fetch_err w data g' = None" by (simp add: solo_def)
  from inv have nf: "fault st = None" by (simp add: solo_inv_def)
  from pc show ?thesis
  proof
    assume f: "pcs st g' = Fetching"
    then have s: "step w data g' st = goto g' Finished (fetch_into w data g' st)"
      using ok nf by (simp add: step_def)
    have "targets_ok w data (step w data g' st)"
      unfolding s using inv by (intro targets_ok_fetch) (simp add: solo_inv_def)
    moreover have "solo_mem w data g (step w data g' st) = solo_mem w data g st"
      using ne nf by (intro solo_mem_eq) (simp_all add: s goto_def header_def)
    then have "solo_mem w data g (step w data g' st)"
      using inv by (simp add: solo_inv_def)
    moreover have "fault (step w data g' st) = None"
      using nf by (simp add: s goto_def)
    moreover have "\<forall>h. h \<noteq> g \<longrightarrow> pcs (step w data g' st) h = Fetching \<or> pcs (step w data g' st) h = Finished"
      using inv nf by (simp add: s solo_inv_def goto_def)
    ultimately show ?thesis by (simp add: solo_inv_def)
  next
    assume "pcs st g' = Finished"
    then have "step w data g' st = st" by (simp add: step_def)
    with inv show ?thesis by simp
  qed
qed

lemma solo_inv_step_self:
  assumes inv: "solo_inv w data g st"
  shows "solo_inv w data g (step w data g st)"
proof -
  from inv have nf: "fault st = None" and t: "targets_ok w data st"
    and m: "solo_mem w data g st"
    and o: "\<forall>h. h \<noteq> g \<longrightarrow> pcs st h = Fetching \<or> pcs st h = Finished"
    by (simp_all add: solo_inv_def)
  show ?thesis
  proof (cases "pcs st g")
    case Fetching
    let ?p = "case fetch_err w data g of None \<Rightarrow> Finished | Some err \<Rightarrow> LoadPtr err"
    have s: "step w data g st = goto g ?p (fetch_into w data g st)"
      using Fetching nf by (simp add: step_def)
    have "targets_ok w data (step w data g st)"
      unfolding s using t by (rule targets_ok_fetch)
    moreover have "solo_mem w data g (step w data g st)"
      using m nf Fetching by (simp add: s solo_mem_def goto_def header_def split: option.splits)
    moreover have "fault (step w data g st) = None"
      using nf by (simp add: s goto_def)
    moreover have "\<forall>h. h \<noteq> g \<longrightarrow> pcs (step w data g st) h = Fetching \<or> pcs (step w data g st) h = Finished"
      using o nf by (simp add: s goto_def)
    ultimately show ?thesis by (simp add: solo_inv_def)
  next
    case Finished
    then have "step w data g st = st" by (simp add: step_def)
    with inv show ?thesis by simp
  next
    case (CopyTab e p n c i)
    with m show ?thesis by (simp add: solo_mem_def)
  next
    case (CopyDat e p n c i)
    with m show ?thesis by (simp add: solo_mem_def)
  qed (use nf t m o in \<open>auto simp: solo_inv_def solo_mem_def step_def goto_def header_def
         growcap_def read_elem_def write_elem_def Let_def
         intro: targets_ok_keep [where g = g]\<close>)
qed

lemma solo_inv_step:
  "solo w data g \<Longrightarrow> solo_inv w data g st \<Longrightarrow> solo_inv w data g (step w data g' st)"
  by (cases "g' = g") (simp_all add: solo_inv_step_self solo_inv_step_other)

lemma solo_inv_run:
  "solo w data g \<Longrightarrow> solo_inv w data g st \<Longrightarrow> solo_inv w data g (run w data sched st)"
  by (induction sched arbitrary: st) (simp_all add: solo_inv_step)

text \<open>
  A step of a goroutine moves it forward and leaves the other goroutines where they
  are, so nine steps of each goroutine bring all of them to \<open>wg.Done()\<close>.
\<close>

lemma pcs_step_other: "g' \<noteq> g \<Longrightarrow> pcs (step w data g st) g' = pcs st g'"
  by (cases "pcs st g")
    (auto simp: step_def goto_def read_elem_def write_elem_def Let_def split: sum.splits option.splits)

lemma rank_step_solo:
  assumes "solo w data g" and "solo_inv w data g st"
  shows "min 9 (Suc (rank (pcs st h))) \<le> rank (pcs (step w data h st) h)"
proof (cases "h = g")
  case True
  from assms(2) have "fault st = None" "solo_mem w data g st"
    by (simp_all add: solo_inv_def)
  then show ?thesis
    unfolding True
    by (cases "pcs st g")
      (auto simp: solo_mem_def step_def goto_def header_def growcap_def read_elem_def
         write_elem_def Let_def split: option.splits)
next
  case False
  with assms have "fetch_err w data h = None" "fault st = None"
    "pcs st h = Fetching \<or> pcs st h = Finished"
    by (simp_all add: solo_def solo_inv_def)
  then show ?thesis by (auto simp: step_def goto_def)
qed

lemma rank_run_solo:
  assumes "solo w data g"
  shows "solo_inv w data g st \<Longrightarrow>
         min 9 (rank (pcs st h) + count_list sched h) \<le> rank (pcs (run w data sched st) h)"
proof (induction sched arbitrary: st)
  case Nil
  show ?case by simp
next
  case (Cons a sched)
  have inv': "solo_inv w data g (step w data a st)"
    using assms Cons.prems by (rule solo_inv_step)
  show ?case
  proof (cases "a = h")
    case True
    have "min 9 (rank (pcs st h) + count_list (a # sched) h)
          \<le> min 9 (rank (pcs (step w data h st) h) + count_list sched h)"
      using rank_step_solo [OF assms Cons.prems, of h] True by simp
    also have "\<dots> \<le> rank (pcs (run w data sched (step w data h st)) h)"
      using inv' True by (intro Cons.IH) simp
    finally show ?thesis using True by simp
  next
    case False
    then show ?thesis
      using Cons.IH [OF inv'] by (simp add: pcs_step_other)
  qed
qed

lemma rank_Finished: "9 \<le> rank p \<Longrightarrow> p = Finished"
  by (cases p) simp_all

lemma fair_all_done:
  assumes "solo w data g" and "fair sched"
  shows "all_done (run w data sched init_fanout)"
proof -
  have "pcs (run w data sched init_fanout) h = Finished" if "9 \<le> count_list sched h" for h
  proof -
    have "min 9 (rank (pcs init_fanout h) + count_list sched h)
          \<le> rank (pcs (run w data sched init_fanout) h)"
      using assms(1) solo_inv_init by (rule rank_run_solo)
    with that have "9 \<le> rank (pcs (run w data sched init_fanout) h)"
      by (simp add: init_fanout_def)
    then show ?thesis by (rule rank_Finished)
  qed
  with assms(2) show ?thesis by (simp add: fair_def all_done_def)
qed

subsection \<open>gatherData after the barrier\<close>

text \<open>
  If exactly the fetch of \<open>g\<close> failed, \<open>errs\<close> holds that one error after the barrier
  and gatherData returns it. If none failed, \<open>errs\<close> is still \<open>nil\<close> and the combine
  loop runs on the four fetched collections.
\<close>

lemma all_done_pcs: "all_done st \<Longrightarrow> pcs st g = Finished"
  by (cases g) (simp_all add: all_done_def)

lemma gather_one_failed:
  assumes root: "fetch_root w = (None, data)"
    and fin: "all_done (run w data sched init_fanout)"
    and solo: "solo w data g"
    and fail: "fetch_err w data g = Some e"
  shows "gatherData w sched store = Some (Returned (Some e) store)"
proof -
  let ?st = "run w data sched init_fanout"
  have inv: "solo_inv w data g ?st"
    using solo solo_inv_init by (rule solo_inv_run)
  then have nf: "fault ?st = None" and m: "solo_mem w data g ?st"
    by (simp_all add: solo_inv_def)
  from m fail all_done_pcs [OF fin, of g]
  have h: "header ?st = (Some g, 1, 1)" "heap ?st g = [(Some e, Some e)]"
    by (simp_all add: solo_mem_def)
  then have "errs_len ?st = 1" "read_elem ?st (errs_ptr ?st) 0 = Inr (Some e, Some e)"
    by (simp_all add: header_def read_elem_def)
  then show ?thesis
    using root fin nf by (simp add: gatherData_def return_err_def)
qed

lemma gather_all_fetched:
  assumes root: "fetch_root w = (None, data)"
    and fin: "all_done (run w data sched init_fanout)"
    and ok: "\<And>g. fetch_err w data g = None"
  shows "gatherData w sched store =
     (case combine (snd (fetch_artists w (Artists data))) (snd (fetch_locations w (Locations data)))
             (snd (fetch_dates w (Dates data))) (snd (fetch_relation w (Relation data))) 0 store of
        Inl p \<Rightarrow> Some (Panicked p)
      | Inr store' \<Rightarrow> Some (Returned None store'))"
proof -
  let ?st = "run w data sched init_fanout"
  have "solo w data SrcArtists" using ok by (simp add: solo_def)
  then have inv: "solo_inv w data SrcArtists ?st"
    using solo_inv_init by (rule solo_inv_run)
  then have nf: "fault ?st = None" and m: "solo_mem w data SrcArtists ?st"
    and "targets_ok w data ?st"
    by (simp_all add: solo_inv_def)
  then have t: "artists ?st = snd (fetch_artists w (Artists data))"
    "locations ?st = snd (fetch_locations w (Locations data))"
    "relation ?st = snd (fetch_relation w (Relation data))"
    "dates ?st = snd (fetch_dates w (Dates data))"
    using all_done_pcs [OF fin] by (simp_all add: targets_ok_def)
  from m ok [of SrcArtists] all_done_pcs [OF fin, of SrcArtists]
  have "errs_len ?st = 0" by (simp add: solo_mem_def header_def)
  then show ?thesis using root fin nf t by (simp add: gatherData_def)
qed

subsection \<open>Handlers\<close>

lemma serve_keeps_store: "snd (serve templates U artistData req) = artistData"
  by (cases req) simp_all

lemma record_hits_empty:
  "record_hits U [] =
     (\<lambda>r. [\<lparr>res_Type = ''artist'', res_Value = m_Name r, res_ID = m_Id r\<rparr>]
        @ map (\<lambda>v. \<lparr>res_Type = ''member'', res_Value = v, res_ID = m_Id r\<rparr>) (m_Members r)
        @ map (\<lambda>v. \<lparr>res_Type = ''location'', res_Value = v, res_ID = m_Id r\<rparr>) (m_Locations r)
        @ [\<lparr>res_Type = ''first album'', res_Value = m_FirstAlbum r, res_ID = m_Id r\<rparr>,
           \<lparr>res_Type = ''creation date'', res_Value = Itoa (m_CreationDate r), res_ID = m_Id r\<rparr>])"
  by (rule ext) (simp add: record_hits_def)

text \<open>
  Two ASCII strings that agree byte by byte up to the case of letters have the same
  lower-case form.
\<close>

lemma ToLower_ASCII:
  "isASCII q1 \<Longrightarrow> isASCII q2 \<Longrightarrow> list_all2 (\<lambda>a b. lower_byte a = lower_byte b) q1 q2 \<Longrightarrow>
   ToLower U q1 = ToLower U q2"
  by (simp add: ToLower_def list_all2_conv_all_nth list_eq_iff_nth_eq)

section \<open>The join (claims C1, C3)\<close>

text \<open>
  Claim C1, counterexample. The claim says that the join fails with a JoinMisaligned
  error whenever the four collections differ in length, and never indexes out of
  range. The loop has no length check and no such error: with one artist and two
  location entries it succeeds and ignores the extra entry, and with one artist and
  no location entry the index \<open>locations.Index[0]\<close> is out of range and panics.
\<close>

theorem join_misaligned_counterexample:
  "length [queen_locations, queen_locations] \<noteq> length [queen_artist] \<and>
   combine [queen_artist] [queen_locations, queen_locations] [queen_dates] [queen_relation] 0 []
     = Inr [queen] \<and>
   combine [queen_artist] [] [queen_dates] [queen_relation] 0 [] = Inl (IndexOutOfRange 0 0)"
  by (simp add: combine.simps index_def queen_def)

text \<open>
  Claim C1, as amended. The join checks no lengths and has no JoinMisaligned error:
  whenever locations, dates and relations each have at least as many entries as
  artists (equal lengths or not), the loop succeeds, every positional index it
  performs is in range, and it appends exactly \<open>len(artists)\<close> records.
\<close>

theorem join_in_bounds_when_long_enough:
  assumes "length arts \<le> length locs" and "length arts \<le> length dts"
    and "length arts \<le> length rels"
  shows "\<exists>new. combine arts locs dts rels 0 store = Inr (store @ new) \<and>
               length new = length arts"
  using combine_in_range [OF assms, of 0 store] by simp

text \<open>
  Claim C1, witness: one artist, two location entries, one dates and one relation
  entry.
\<close>

theorem join_in_bounds_when_long_enough_witness:
  "length [queen_artist] \<le> length [queen_locations, queen_locations] \<and>
   length [queen_artist] \<le> length [queen_dates] \<and>
   length [queen_artist] \<le> length [queen_relation] \<and>
   (\<exists>new. combine [queen_artist] [queen_locations, queen_locations] [queen_dates]
            [queen_relation] 0 [] = Inr ([] @ new) \<and> length new = length [queen_artist])"
proof -
  have h: "length [queen_artist] \<le> length [queen_locations, queen_locations]"
    "length [queen_artist] \<le> length [queen_dates]"
    "length [queen_artist] \<le> length [queen_relation]"
    by simp_all
  show ?thesis
    using h join_in_bounds_when_long_enough [OF h, of "[]"] by blast
qed

text \<open>
  Claim C3. For four collections of equal length \<open>N\<close> the join produces exactly \<open>N\<close>
  records (appended to \<open>artistData\<close>); the record at position \<open>i\<close> has the id, name,
  image, members, creation year and first-album string of \<open>artists[i]\<close>, the locations
  of \<open>locations[i]\<close>, the dates of \<open>dates[i]\<close> and the relation map of \<open>relations[i]\<close>;
  the records come in the order of the artists collection.
\<close>

theorem join_equal_lengths:
  assumes "length locs = length arts" and "length dts = length arts"
    and "length rels = length arts"
  shows "\<exists>new. combine arts locs dts rels 0 store = Inr (store @ new) \<and>
           length new = length arts \<and>
           (\<forall>i < length arts.
              m_Id (new ! i) = ID (arts ! i) \<and>
              m_Name (new ! i) = Name (arts ! i) \<and>
              m_Image (new ! i) = Image (arts ! i) \<and>
              m_Members (new ! i) = Members (arts ! i) \<and>
              m_CreationDate (new ! i) = CreationDate (arts ! i) \<and>
              m_FirstAlbum (new ! i) = FirstAlbum (arts ! i) \<and>
              m_Locations (new ! i) = loc_Locations (locs ! i) \<and>
              m_Dates (new ! i) = dat_Dates (dts ! i) \<and>
              m_Relation (new ! i) = rel_DatesLocations (rels ! i))"
proof -
  let ?new = "map (\<lambda>i. mkArtistMap (arts ! i) (locs ! i) (dts ! i) (rels ! i)) [0..<length arts]"
  have "combine arts locs dts rels 0 store = Inr (store @ ?new)"
    using assms by (simp add: combine_in_range)
  moreover have "length ?new = length arts" by simp
  moreover have "\<forall>i < length arts. ?new ! i = mkArtistMap (arts ! i) (locs ! i) (dts ! i) (rels ! i)"
    by simp
  ultimately show ?thesis
    by (intro exI [of _ ?new]) (simp add: mkArtistMap_def)
qed

text \<open>Claim C3, witness: the four one-element collections of the Queen example.\<close>

theorem join_equal_lengths_witness:
  "length [queen_locations] = length [queen_artist] \<and>
   length [queen_dates] = length [queen_artist] \<and>
   length [queen_relation] = length [queen_artist] \<and>
   (\<exists>new. combine [queen_artist] [queen_locations] [queen_dates] [queen_relation] 0 []
             = Inr new \<and>
           length new = 1 \<and> m_Id (new ! 0) = 1 \<and> m_Name (new ! 0) = ''Queen'' \<and>
           m_Locations (new ! 0) = [''london'', ''tokyo''] \<and>
           m_Dates (new ! 0) = [''1986-07-12''])"
proof -
  have h: "length [queen_locations] = length [queen_artist]"
    "length [queen_dates] = length [queen_artist]"
    "length [queen_relation] = length [queen_artist]"
    by simp_all
  from join_equal_lengths [OF h, of "[]"] obtain new where
    "combine [queen_artist] [queen_locations] [queen_dates] [queen_relation] 0 [] = Inr new"
    "length new = 1"
    "m_Id (new ! 0) = ID queen_artist" "m_Name (new ! 0) = Name queen_artist"
    "m_Locations (new ! 0) = loc_Locations queen_locations"
    "m_Dates (new ! 0) = dat_Dates queen_dates"
    by auto
  then show ?thesis
    by (simp add: queen_artist_def queen_locations_def queen_dates_def)
qed

section \<open>Failure of a fetch (claims C2, C4, C9)\<close>

text \<open>
  Claim C2, counterexample. The claim says that the error returned is fixed by a
  priority order artists, locations, dates, relations, whatever the completion order.
  gatherData returns \<open>errs[0]\<close>. In a world where the artists and the locations fetch
  both fail, the run in which the artists goroutine completes first returns the
  artists error and the run in which the locations goroutine completes first returns
  the locations error: same failures, different results, and the second is not the
  one the priority order names.
\<close>

theorem gather_error_order_counterexample:
  "fetch_err world_two_down api SrcArtists = Some ''artists: EOF'' \<and>
   fetch_err world_two_down api SrcLocations = Some ''locations: EOF'' \<and>
   all_done (run world_two_down api artists_first init_fanout) \<and>
   all_done (run world_two_down api locations_first init_fanout) \<and>
   gatherData world_two_down artists_first [] = Some (Returned (Some ''artists: EOF'') []) \<and>
   gatherData world_two_down locations_first [] = Some (Returned (Some ''locations: EOF'') [])"
  by (simp add: gatherData_def world_two_down_def world_locations_down_def world_up_def
      artists_first_def locations_first_def step_def init_fanout_def all_done_def api_def
      goto_def read_elem_def write_elem_def growcap_def return_err_def)

text \<open>
  Claim C2, as amended. gatherData has no priority order over the sources: it
  returns \<open>errs[0]\<close>, and with several failing fetches the result depends on the
  interleaving of the goroutines. When exactly one source fails, every run returns
  that source's error, whatever the completion order: any two runs agree.
  (\<open>all_done\<close> says that the schedule lets \<open>wg.Wait()\<close> return; by \<open>fair_all_done\<close>
  such schedules exist.)
\<close>

theorem gather_single_failure_deterministic:
  assumes "fetch_root w = (None, data)"
    and "all_done (run w data sched1 init_fanout)"
    and "all_done (run w data sched2 init_fanout)"
    and "fetch_err w data g = Some e"
    and "\<forall>g'. g' \<noteq> g \<longrightarrow> fetch_err w data g' = None"
  shows "gatherData w sched1 artistData = Some (Returned (Some e) artistData) \<and>
         gatherData w sched2 artistData = gatherData w sched1 artistData"
proof -
  have s: "solo w data g" using assms(5) by (simp add: solo_def)
  show ?thesis
    by (simp add: gather_one_failed [OF assms(1) assms(2) s assms(4)]
        gather_one_failed [OF assms(1) assms(3) s assms(4)])
qed

text \<open>
  Claim C2, witness: only the locations fetch fails; the run with artists first and
  the run with locations first both return the locations error.
\<close>

theorem gather_single_failure_deterministic_witness:
  "fetch_root world_locations_down = (None, api) \<and>
   all_done (run world_locations_down api artists_first init_fanout) \<and>
   all_done (run world_locations_down api locations_first init_fanout) \<and>
   fetch_err world_locations_down api SrcLocations = Some ''locations: EOF'' \<and>
   gatherData world_locations_down artists_first [] = Some (Returned (Some ''locations: EOF'') []) \<and>
   gatherData world_locations_down locations_first [] = Some (Returned (Some ''locations: EOF'') [])"
proof -
  have root: "fetch_root world_locations_down = (None, api)"
    by (simp add: world_locations_down_def world_up_def)
  have fin1: "all_done (run world_locations_down api artists_first init_fanout)"
    by (simp add: world_locations_down_def world_up_def artists_first_def step_def
        init_fanout_def all_done_def api_def goto_def read_elem_def write_elem_def growcap_def)
  have fin2: "all_done (run world_locations_down api locations_first init_fanout)"
    by (simp add: world_locations_down_def world_up_def locations_first_def step_def
        init_fanout_def all_done_def api_def goto_def read_elem_def write_elem_def growcap_def)
  have fail: "fetch_err world_locations_down api SrcLocations = Some ''locations: EOF''"
    by (simp add: world_locations_down_def world_up_def)
  have only: "\<forall>g'. g' \<noteq> SrcLocations \<longrightarrow> fetch_err world_locations_down api g' = None"
  proof (intro allI impI)
    fix g' :: source
    assume "g' \<noteq> SrcLocations"
    then show "fetch_err world_locations_down api g' = None"
      by (cases g') (simp_all add: world_locations_down_def world_up_def)
  qed
  show ?thesis
    using root fin1 fin2 fail
      gather_single_failure_deterministic [OF root fin1 fin2 fail only, of "[]"]
    by simp
qed

text \<open>
  Claim C4, at a failing input. The claim says that gatherData returns an error
  whenever one of the four fetches fails. The artists and the locations fetch both
  fail. The artists goroutine has stored the header of its one-element slice but
  not yet the element when the locations goroutine loads that header, grows the
  slice and copies the still empty element; the artists error is then written into
  the abandoned array. After \<open>wg.Wait()\<close> the slice is \<open>[nil, locations error]\<close>, and
  gatherData returns \<open>errs[0]\<close>, which is \<open>nil\<close>: no error is reported (the store is
  left empty). This comes from the unsynchronized append of claim C9.
\<close>

theorem racing_failures_return_nil:
  "fetch_err world_two_down api SrcArtists = Some ''artists: EOF'' \<and>
   fetch_err world_two_down api SrcLocations = Some ''locations: EOF'' \<and>
   all_done (run world_two_down api stale_copy init_fanout) \<and>
   errs (run world_two_down api stale_copy init_fanout)
     = Some [(None, None), (Some ''locations: EOF'', Some ''locations: EOF'')] \<and>
   gatherData world_two_down stale_copy [] = Some (Returned None [])"
  by (simp add: gatherData_def world_two_down_def world_locations_down_def world_up_def
      stale_copy_def step_def init_fanout_def all_done_def api_def errs_def
      goto_def read_elem_def write_elem_def growcap_def return_err_def numeral_2_eq_2)

text \<open>
  Claim C9, at a failing input. The claim asks that every append to the shared
  \<open>errs\<close> be synchronized so that no reported error is lost. The goroutines append
  without a lock. When the artists and the locations fetch both fail and both
  goroutines load \<open>errs\<close> (still \<open>nil\<close>) before either stores, each allocates a
  one-element array and stores its own header, and after \<open>wg.Wait()\<close> the slice
  holds the locations error only: the artists error is lost.
\<close>

theorem unsynchronized_append_loses_error:
  "fetch_err world_two_down api SrcArtists = Some ''artists: EOF'' \<and>
   fetch_err world_two_down api SrcLocations = Some ''locations: EOF'' \<and>
   all_done (run world_two_down api racing init_fanout) \<and>
   errs (run world_two_down api racing init_fanout)
     = Some [(Some ''locations: EOF'', Some ''locations: EOF'')]"
  by (simp add: world_two_down_def world_locations_down_def world_up_def racing_def step_def
      init_fanout_def all_done_def api_def errs_def
      goto_def read_elem_def write_elem_def growcap_def)

section \<open>Repeated gathering (claim C10)\<close>

text \<open>
  Claim C10. gatherData appends to \<open>artistData\<close> and never clears it: from a store of
  \<open>M\<close> records, a successful run over four collections of length \<open>N\<close> returns \<open>nil\<close>
  and leaves the old records followed by \<open>N\<close> new ones, \<open>M + N\<close> in all. No handler
  registered in \<open>main\<close> changes the store.
\<close>

theorem gather_not_idempotent:
  assumes "fetch_root w = (None, data)"
    and "all_done (run w data sched init_fanout)"
    and "\<forall>g. fetch_err w data g = None"
    and "length (snd (fetch_artists w (Artists data))) = N"
    and "length (snd (fetch_locations w (Locations data))) = N"
    and "length (snd (fetch_dates w (Dates data))) = N"
    and "length (snd (fetch_relation w (Relation data))) = N"
  shows "(\<exists>new. gatherData w sched store = Some (Returned None (store @ new)) \<and>
            length new = N \<and> length (store @ new) = length store + N) \<and>
         (\<forall>req. snd (serve templates U store req) = store)"
proof -
  have ok: "\<And>g. fetch_err w data g = None" using assms(3) by simp
  have "\<exists>new. gatherData w sched store = Some (Returned None (store @ new)) \<and> length new = N"
    using assms(4-7)
    by (simp add: gather_all_fetched [OF assms(1,2) ok] combine_in_range)
  then show ?thesis by (auto simp: serve_keeps_store)
qed

text \<open>
  Claim C10, witness: the first run fills the empty store with the Queen record, a
  second run on that store adds one more record.
\<close>

theorem gather_not_idempotent_witness:
  "fetch_root world_up = (None, api) \<and>
   all_done (run world_up api artists_first init_fanout) \<and>
   gatherData world_up artists_first [] = Some (Returned None [queen]) \<and>
   (\<exists>new. gatherData world_up artists_first [queen] = Some (Returned None ([queen] @ new)) \<and>
      length new = 1 \<and> length ([queen] @ new) = length [queen] + 1)"
proof -
  have root: "fetch_root world_up = (None, api)"
    by (simp add: world_up_def)
  have fin: "all_done (run world_up api artists_first init_fanout)"
    by (simp add: world_up_def artists_first_def step_def init_fanout_def all_done_def api_def
        goto_def)
  have ok: "\<forall>g. fetch_err world_up api g = None"
  proof
    fix g show "fetch_err world_up api g = None"
      by (cases g) (simp_all add: world_up_def)
  qed
  have len: "length (snd (fetch_artists world_up (Artists api))) = 1"
    "length (snd (fetch_locations world_up (Locations api))) = 1"
    "length (snd (fetch_dates world_up (Dates api))) = 1"
    "length (snd (fetch_relation world_up (Relation api))) = 1"
    by (simp_all add: world_up_def)
  have first: "gatherData world_up artists_first [] = Some (Returned None [queen])"
    by (simp add: gatherData_def world_up_def artists_first_def step_def init_fanout_def
        all_done_def api_def combine.simps index_def queen_def goto_def)
  show ?thesis
    using root fin first gather_not_idempotent [OF root fin ok len, of "[queen]"] by blast
qed

section \<open>Lookup by id (claim C5)\<close>

text \<open>
  Claim C5. For a GET request whose \<open>id\<close> parameter parses to the integer
  \<open>artistID\<close>, singleArtistHandler answers 400 "Invalid Artist ID" exactly when
  \<open>artistID < 1\<close> or \<open>artistID > len(artistData)\<close>, in particular for 0, -1 and
  \<open>N + 1\<close>; for \<open>1 \<le> k \<le> N\<close> it executes the artist template on exactly the record at
  position \<open>k - 1\<close>.
\<close>

theorem lookup_by_id_bounds:
  "(singleArtistHandler templates store ''GET'' (Inr artistID)
      = HttpError 400 ''400 ! Invalid Artist ID''
    \<longleftrightarrow> artistID < 1 \<or> artistID > int (length store)) \<and>
   singleArtistHandler templates store ''GET'' (Inr 0) = HttpError 400 ''400 ! Invalid Artist ID'' \<and>
   singleArtistHandler templates store ''GET'' (Inr (- 1)) = HttpError 400 ''400 ! Invalid Artist ID'' \<and>
   singleArtistHandler templates store ''GET'' (Inr (int (length store) + 1))
      = HttpError 400 ''400 ! Invalid Artist ID'' \<and>
   (1 \<le> k \<and> k \<le> int (length store) \<longrightarrow>
      singleArtistHandler templates store ''GET'' (Inr k)
        = ExecuteTemplate templates ''artist.html'' (OneArtist (store ! nat (k - 1))))"
  by (auto simp: singleArtistHandler_def ExecuteTemplate_def split: option.splits)

text \<open>
  Claim C5, witness: on the one-record store id 1 yields the Queen record and id 2
  is invalid.
\<close>

theorem lookup_by_id_bounds_witness:
  "(1::int) \<le> 1 \<and> 1 \<le> int (length [queen]) \<and>
   singleArtistHandler (\<lambda>name d. None) [queen] ''GET'' (Inr 1) = Page ''artist.html'' (OneArtist queen) \<and>
   singleArtistHandler (\<lambda>name d. None) [queen] ''GET'' (Inr 2) = HttpError 400 ''400 ! Invalid Artist ID''"
proof -
  have "singleArtistHandler (\<lambda>name d. None) [queen] ''GET'' (Inr 1)
          = ExecuteTemplate (\<lambda>name d. None) ''artist.html'' (OneArtist ([queen] ! nat (1 - 1)))"
    using lookup_by_id_bounds [of "\<lambda>name d. None" "[queen]" 1 1] by simp
  moreover have "singleArtistHandler (\<lambda>name d. None) [queen] ''GET'' (Inr 2)
          = HttpError 400 ''400 ! Invalid Artist ID''"
    using lookup_by_id_bounds [of "\<lambda>name d. None" "[queen]" 2 1] by simp
  ultimately show ?thesis by (simp add: ExecuteTemplate_def)
qed

section \<open>Search (claims C6, C7, C8)\<close>

text \<open>
  Claim C6. The empty query matches every tested field of every record: the number of
  hits is the sum over the records of 1 (name) + the number of members + the number
  of locations + 1 (first album) + 1 (creation year), and the hits are exactly these
  fields, in order.
\<close>

theorem search_empty_query_count:
  "length (searchHandler U store '''') =
     (\<Sum>r\<leftarrow>store. 1 + length (m_Members r) + length (m_Locations r) + 1 + 1) \<and>
   searchHandler U store '''' =
     concat (map (\<lambda>r.
        [\<lparr>res_Type = ''artist'', res_Value = m_Name r, res_ID = m_Id r\<rparr>]
        @ map (\<lambda>v. \<lparr>res_Type = ''member'', res_Value = v, res_ID = m_Id r\<rparr>) (m_Members r)
        @ map (\<lambda>v. \<lparr>res_Type = ''location'', res_Value = v, res_ID = m_Id r\<rparr>) (m_Locations r)
        @ [\<lparr>res_Type = ''first album'', res_Value = m_FirstAlbum r, res_ID = m_Id r\<rparr>,
           \<lparr>res_Type = ''creation date'', res_Value = Itoa (m_CreationDate r), res_ID = m_Id r\<rparr>])
       store)"
proof -
  have "searchHandler U store '''' =
     concat (map (\<lambda>r.
        [\<lparr>res_Type = ''artist'', res_Value = m_Name r, res_ID = m_Id r\<rparr>]
        @ map (\<lambda>v. \<lparr>res_Type = ''member'', res_Value = v, res_ID = m_Id r\<rparr>) (m_Members r)
        @ map (\<lambda>v. \<lparr>res_Type = ''location'', res_Value = v, res_ID = m_Id r\<rparr>) (m_Locations r)
        @ [\<lparr>res_Type = ''first album'', res_Value = m_FirstAlbum r, res_ID = m_Id r\<rparr>,
           \<lparr>res_Type = ''creation date'', res_Value = Itoa (m_CreationDate r), res_ID = m_Id r\<rparr>])
       store)"
    by (simp add: searchHandler_eq_Search Search_def record_hits_empty)
  then show ?thesis
    by (simp add: length_concat comp_def)
qed

text \<open>
  Claim C7. The search is case-insensitive in its query: two queries that differ
  only in letter case, that is, that \<open>strings.ToLower\<close> maps to the same string,
  give identical hit sequences on every store. (For ASCII queries \<open>ToLower_ASCII\<close>
  reduces the hypothesis to a byte-wise comparison up to case.)
\<close>

theorem search_case_insensitive_query:
  assumes "ToLower U q1 = ToLower U q2"
  shows "searchHandler U store q1 = searchHandler U store q2"
  using assms by (simp add: searchHandler_def)

text \<open>Claim C7, witness: the queries \<open>QUEEN\<close> and \<open>queen\<close> on the one-record store.\<close>

theorem search_case_insensitive_query_witness:
  "ToLower (\<lambda>s. s) ''QUEEN'' = ToLower (\<lambda>s. s) ''queen'' \<and>
   searchHandler (\<lambda>s. s) [queen] ''QUEEN'' = searchHandler (\<lambda>s. s) [queen] ''queen''"
proof -
  have h: "ToLower (\<lambda>s. s) ''QUEEN'' = ToLower (\<lambda>s. s) ''queen''"
    by code_simp
  show ?thesis
    using h search_case_insensitive_query [OF h, of "[queen]"] by simp
qed

text \<open>
  Claim C8. For every store and query the handler's result is \<open>Search\<close>: the hits of
  the records in store order, within a record in the order name, members, locations,
  first album, creation year, each tagged with its kind, the matched value and the
  record's id, nothing removed or reordered. On the one-record Queen store the query
  \<open>may\<close> yields exactly one hit, of kind member, with value \<open>Brian May\<close> and id 1.
\<close>

theorem search_order_and_tags:
  "searchHandler U store q = Search U store q \<and>
   searchHandler U [queen] ''may'' =
     [\<lparr>res_Type = ''member'', res_Value = ''Brian May'', res_ID = 1\<rparr>]"
proof -
  have "searchHandler U [queen] ''may'' =
     [\<lparr>res_Type = ''member'', res_Value = ''Brian May'', res_ID = 1\<rparr>]"
    by code_simp
  then show ?thesis by (simp add: searchHandler_eq_Search)
qed

end
